theory Spec2Isabelle
  imports Main "HOL-Library.Word"
begin

section \<open>Values of the host language\<close>

text \<open>
  The wallet module (\<^verbatim>\<open>src/wallet/index.ts\<close>) sequences calls into key-derivation and
  address libraries. A \<^verbatim>\<open>Buffer\<close> or \<^verbatim>\<open>Uint8Array\<close> is a list of bytes, a
  \<^verbatim>\<open>bigint\<close> an unbounded integer, a string a list of characters. A thrown exception
  or a rejected promise is the left summand of the result; \<^verbatim>\<open>await\<close> and statement
  sequencing pass the first error on.
\<close>

type_synonym bytes = "8 word list"

datatype error = Error string | TypeError string | RangeError string

definition await :: "error + 'a \<Rightarrow> ('a \<Rightarrow> error + 'b) \<Rightarrow> error + 'b" where
  "await m k = (case m of Inl e \<Rightarrow> Inl e | Inr x \<Rightarrow> k x)"

definition try_catch :: "error + 'a \<Rightarrow> (error \<Rightarrow> error + 'a) \<Rightarrow> error + 'a" where
  "try_catch body handler = (case body of Inl e \<Rightarrow> handler e | Inr v \<Rightarrow> Inr v)"

text \<open>\<^verbatim>\<open>bigint.prototype.toString()\<close>: decimal digits, a minus sign for negatives.\<close>

definition digit_char :: "nat \<Rightarrow> char" where
  "digit_char d = ''0123456789'' ! d"

fun nat_toString :: "nat \<Rightarrow> string" where
  "nat_toString n =
     (if n < 10 then [digit_char n]
      else nat_toString (n div 10) @ [digit_char (n mod 10)])"

definition bigint_toString :: "int \<Rightarrow> string" where
  "bigint_toString i =
     (if i < 0 then CHR ''-'' # nat_toString (nat (- i)) else nat_toString (nat i))"

text \<open>\<^verbatim>\<open>Buffer.prototype.toString('hex')\<close>: two lower-case hex digits per byte.\<close>

definition hex_digit :: "nat \<Rightarrow> char" where
  "hex_digit d = ''0123456789abcdef'' ! d"

definition Buffer_toString_hex :: "bytes \<Rightarrow> string" where
  "Buffer_toString_hex buf =
     concat (map (\<lambda>b. [hex_digit (unat b div 16), hex_digit (unat b mod 16)]) buf)"

text \<open>\<^verbatim>\<open>Buffer.from(buffer)\<close> copies the bytes into a fresh buffer.\<close>

definition Buffer_from :: "bytes \<Rightarrow> bytes" where
  "Buffer_from buf = buf"

text \<open>
  A JavaScript \<^verbatim>\<open>number\<close> as far as \<^verbatim>\<open>BigInt(n)\<close> tells numbers apart: an integral
  value converts, anything else (a fraction, NaN, an infinity; kept as the text the engine
  prints for it) raises a RangeError that names the number.
\<close>

datatype JSNumber = Integral int | NonIntegral string

definition BigInt :: "JSNumber \<Rightarrow> error + int" where
  "BigInt n = (case n of Integral i \<Rightarrow> Inr i
     | NonIntegral shown \<Rightarrow> Inl (RangeError (''The number '' @ shown @
         '' cannot be converted to a BigInt because it is not an integer'')))"

section \<open>Types of the wallet module and of its collaborators\<close>

datatype NetworkType = Mainnet | Testnet

text \<open>\<^verbatim>\<open>ChainID\<close>, \<^verbatim>\<open>TransactionVersion\<close> and \<^verbatim>\<open>AddressVersion\<close> of @stacks/transactions.\<close>

datatype ChainID = ChainID_Testnet | ChainID_Mainnet

datatype TransactionVersion = TransactionVersion_Mainnet | TransactionVersion_Testnet

definition AddressVersion_MainnetSingleSig :: int where
  "AddressVersion_MainnetSingleSig = 22"

definition AddressVersion_MainnetMultiSig :: int where
  "AddressVersion_MainnetMultiSig = 20"

definition AddressVersion_TestnetSingleSig :: int where
  "AddressVersion_TestnetSingleSig = 26"

definition AddressVersion_TestnetMultiSig :: int where
  "AddressVersion_TestnetMultiSig = 21"

text \<open>\<^verbatim>\<open>Network\<close> of bitcoin-address-validation and \<^verbatim>\<open>networks\<close> of bitcoinjs-lib.\<close>

datatype btcAddressNetwork = btcAddressNetwork_mainnet | btcAddressNetwork_testnet
  | btcAddressNetwork_regtest

datatype bitcoinjs_network = networks_bitcoin | networks_testnet | networks_regtest

text \<open>
  A BIP32 node: \<^verbatim>\<open>privateKey\<close> is \<^verbatim>\<open>Buffer | undefined\<close> (a neutered node has none).
\<close>

record BIP32Interface =
  node_privateKey :: "bytes option"
  node_publicKey :: bytes
  node_chainCode :: bytes

record ECPairInterface =
  pair_privateKey :: "bytes option"
  pair_publicKey :: bytes
  pair_compressed :: bool

record StacksPrivateKey =
  spk_data :: bytes
  spk_compressed :: bool

record StacksPublicKey =
  spub_data :: bytes

record Payment =
  payment_address :: "string option"
  payment_output :: "bytes option"

record BTC_NETWORK =
  bech32 :: string
  pubKeyHash :: nat
  scriptHash :: nat
  wif :: nat

text \<open>\<^verbatim>\<open>Keychain\<close> (types/api/xverse/wallet) and \<^verbatim>\<open>BaseWallet\<close> (types/wallet).\<close>

record Keychain =
  childKey :: BIP32Interface
  address :: string
  privateKey :: string

text \<open>
  \<^verbatim>\<open>btcAddress\<close> and \<^verbatim>\<open>ordinalsAddress\<close> come from optional results under a non-null
  assertion, which checks nothing when the program runs: they hold whatever the address
  builder returned.
\<close>

record BaseWallet =
  stxAddress :: string
  btcAddress :: "string option"
  ordinalsAddress :: "string option"
  masterPubKey :: string
  stxPublicKey :: string
  btcPublicKey :: string
  ordinalsPublicKey :: string
  seedPhrase :: string

text \<open>
  The constants imported from \<^verbatim>\<open>../constant\<close>, whose values are not part of the
  sources at hand: every definition below takes them as a parameter.
\<close>

record constants =
  BTC_SEGWIT_PATH_PURPOSE :: string
  BTC_TAPROOT_PATH_PURPOSE :: string
  BTC_WRAPPED_SEGWIT_PATH_PURPOSE :: string
  ENTROPY_BYTES :: nat
  STX_PATH_WITHOUT_INDEX :: string

text \<open>
  The functions imported from libraries and from sibling modules. Each may throw, so each
  returns a result; the theorems below hold for every such collection of functions.
\<close>

record libs =
  bip39_mnemonicToSeed :: "string \<Rightarrow> error + bytes"
  bip32_fromSeed :: "bytes \<Rightarrow> error + BIP32Interface"
  derivePath :: "BIP32Interface \<Rightarrow> string \<Rightarrow> error + BIP32Interface"
  ecpair_of_key :: "bytes \<Rightarrow> error + ECPairInterface"
  ecPairToHexString :: "ECPairInterface \<Rightarrow> error + string"
  getAddressFromPrivateKey :: "string \<Rightarrow> TransactionVersion \<Rightarrow> error + string"
  createStacksPrivateKey :: "string \<Rightarrow> error + StacksPrivateKey"
  getPublicKey :: "StacksPrivateKey \<Rightarrow> error + StacksPublicKey"
  publicKeyToString :: "StacksPublicKey \<Rightarrow> error + string"
  hex_decode :: "string \<Rightarrow> error + bytes"
  hex_encode :: "bytes \<Rightarrow> error + string"
  getBtcNetwork :: "NetworkType \<Rightarrow> error + BTC_NETWORK"
  btc_getAddress :: "string \<Rightarrow> bytes \<Rightarrow> BTC_NETWORK \<Rightarrow> error + string option"
  payments_p2wpkh :: "bytes \<Rightarrow> bitcoinjs_network \<Rightarrow> error + Payment"
  payments_p2sh :: "Payment \<Rightarrow> bytes \<Rightarrow> bitcoinjs_network \<Rightarrow> error + Payment"
  schnorr_getPublicKey :: "bytes \<Rightarrow> error + bytes"
  c32addressDecode :: "string \<Rightarrow> error + (int \<times> string)"
  validate :: "string \<Rightarrow> btcAddressNetwork \<Rightarrow> error + bool"

text \<open>
  Modelled from the spec: \<^verbatim>\<open>ECPair.fromPrivateKey\<close> of \<^verbatim>\<open>../utils/ecpair\<close>, which is
  not among the sources. Given a key it builds the key pair (\<open>ecpair_of_key\<close>); given
  \<^verbatim>\<open>undefined\<close>, which a non-null assertion lets through, it is the library that reports
  the error (section 4.4: a child node that lacks a private key is a library-reported
  error).
\<close>

definition ECPair_fromPrivateKey :: "libs \<Rightarrow> bytes option \<Rightarrow> error + ECPairInterface" where
  "ECPair_fromPrivateKey L key =
     (case key of
        None \<Rightarrow> Inl (TypeError ''Expected Buffer, got undefined'')
      | Some k \<Rightarrow> ecpair_of_key L k)"

text \<open>
  \<^verbatim>\<open>key!.toString('hex')\<close> on a \<^verbatim>\<open>Buffer | undefined\<close>: the assertion is erased by
  the compiler, so reading a property of \<^verbatim>\<open>undefined\<close> raises a TypeError.
\<close>

definition nonnull_toString_hex :: "bytes option \<Rightarrow> error + string" where
  "nonnull_toString_hex key =
     (case key of
        None \<Rightarrow> Inl (TypeError ''Cannot read properties of undefined (reading 'toString')'')
      | Some k \<Rightarrow> Inr (Buffer_toString_hex k))"

section \<open>Derivation paths\<close>

definition derivationPaths :: "constants \<Rightarrow> ChainID \<Rightarrow> string" where
  "derivationPaths C chain =
     (case chain of
        ChainID_Mainnet \<Rightarrow> STX_PATH_WITHOUT_INDEX C
      | ChainID_Testnet \<Rightarrow> STX_PATH_WITHOUT_INDEX C)"

definition getDerivationPath :: "constants \<Rightarrow> ChainID \<Rightarrow> int \<Rightarrow> string" where
  "getDerivationPath C chain index = derivationPaths C chain @ bigint_toString index"

text \<open>
  \<^verbatim>\<open>account ? account.toString() : '0'\<close>: an omitted account and the account \<^verbatim>\<open>0n\<close>
  are both falsy.
\<close>

definition accountIndex_of :: "int option \<Rightarrow> string" where
  "accountIndex_of account =
     (case account of
        None \<Rightarrow> ''0''
      | Some a \<Rightarrow> if a = 0 then ''0'' else bigint_toString a)"

definition getBitcoinDerivationPath :: "constants \<Rightarrow> int option \<Rightarrow> int \<Rightarrow> NetworkType \<Rightarrow> string" where
  "getBitcoinDerivationPath C account index network =
     (let accountIndex = accountIndex_of account in
      if network = Mainnet
      then BTC_WRAPPED_SEGWIT_PATH_PURPOSE C @ ''0'/'' @ accountIndex @ '''/0/'' @ bigint_toString index
      else BTC_WRAPPED_SEGWIT_PATH_PURPOSE C @ ''1'/'' @ accountIndex @ '''/0/'' @ bigint_toString index)"

definition getSegwitDerivationPath :: "constants \<Rightarrow> int option \<Rightarrow> int \<Rightarrow> NetworkType \<Rightarrow> string" where
  "getSegwitDerivationPath C account index network =
     (let accountIndex = accountIndex_of account in
      if network = Mainnet
      then BTC_SEGWIT_PATH_PURPOSE C @ ''0'/'' @ accountIndex @ '''/0/'' @ bigint_toString index
      else BTC_SEGWIT_PATH_PURPOSE C @ ''1'/'' @ accountIndex @ '''/0/'' @ bigint_toString index)"

definition getTaprootDerivationPath :: "constants \<Rightarrow> int option \<Rightarrow> int \<Rightarrow> NetworkType \<Rightarrow> string" where
  "getTaprootDerivationPath C account index network =
     (let accountIndex = accountIndex_of account in
      if network = Mainnet
      then BTC_TAPROOT_PATH_PURPOSE C @ ''0'/'' @ accountIndex @ '''/0/'' @ bigint_toString index
      else BTC_TAPROOT_PATH_PURPOSE C @ ''1'/'' @ accountIndex @ '''/0/'' @ bigint_toString index)"

section \<open>Stacks key chain\<close>

text \<open>
  \<^verbatim>\<open>deriveStxAddressChain(chain, index = 0n)\<close> returns a function of the root node; an
  omitted index is \<^verbatim>\<open>0n\<close>. A \<^verbatim>\<open>Buffer\<close> is truthy whatever it holds, so the guard
  fires exactly when the child has no private key.
\<close>

definition deriveStxAddressChain ::
  "libs \<Rightarrow> constants \<Rightarrow> ChainID \<Rightarrow> int option \<Rightarrow> BIP32Interface \<Rightarrow> error + Keychain" where
  "deriveStxAddressChain L C chain index_arg rootNode =
     (let index = (case index_arg of None \<Rightarrow> 0 | Some i \<Rightarrow> i) in
      await (derivePath L rootNode (getDerivationPath C chain index)) (\<lambda>child.
        case node_privateKey child of
          None \<Rightarrow> Inl (Error ''Unable to derive private key from `rootNode`, bip32 master keychain'')
        | Some key \<Rightarrow>
            await (ECPair_fromPrivateKey L (Some key)) (\<lambda>ecPair.
            await (ecPairToHexString L ecPair) (\<lambda>hexKey.
              let txVersion = (if chain = ChainID_Mainnet then TransactionVersion_Mainnet
                               else TransactionVersion_Testnet) in
              await (getAddressFromPrivateKey L hexKey txVersion) (\<lambda>addr.
                Inr \<lparr>childKey = child, address = addr, privateKey = hexKey\<rparr>)))))"

definition getStxAddressKeyChain ::
  "libs \<Rightarrow> constants \<Rightarrow> string \<Rightarrow> ChainID \<Rightarrow> JSNumber \<Rightarrow> error + Keychain" where
  "getStxAddressKeyChain L C mnemonic chainID accountIndex =
     await (bip39_mnemonicToSeed L mnemonic) (\<lambda>seed.
     await (bip32_fromSeed L (Buffer_from seed)) (\<lambda>rootNode.
     await (BigInt accountIndex) (\<lambda>index.
       deriveStxAddressChain L C chainID (Some index) rootNode)))"

section \<open>Wallet assembly\<close>

definition bitcoinjs_network_of :: "NetworkType \<Rightarrow> bitcoinjs_network" where
  "bitcoinjs_network_of network = (if network = Mainnet then networks_bitcoin else networks_testnet)"

definition walletFromSeedPhrase ::
  "libs \<Rightarrow> constants \<Rightarrow> string \<Rightarrow> int \<Rightarrow> NetworkType \<Rightarrow> error + BaseWallet" where
  "walletFromSeedPhrase L C mnemonic index network =
     await (bip39_mnemonicToSeed L mnemonic) (\<lambda>seed.
     await (bip32_fromSeed L (Buffer_from seed)) (\<lambda>rootNode.
     await (deriveStxAddressChain L C
              (if network = Mainnet then ChainID_Mainnet else ChainID_Testnet) (Some index) rootNode)
       (\<lambda>keychain.
     let stxAddr = address keychain in
     await (bip32_fromSeed L seed) (\<lambda>master.
     let masterPub = Buffer_toString_hex (node_publicKey master) in
     await (createStacksPrivateKey L (privateKey keychain)) (\<lambda>stacksKey.
     await (getPublicKey L stacksKey) (\<lambda>stacksPub.
     await (publicKeyToString L stacksPub) (\<lambda>stxPub.
     await (derivePath L master (getBitcoinDerivationPath C None index network)) (\<lambda>btcChild.
     await (ECPair_fromPrivateKey L (node_privateKey btcChild)) (\<lambda>keyPair.
     await (derivePath L master (getTaprootDerivationPath C None index network)) (\<lambda>taprootBtcChild.
     await (nonnull_toString_hex (node_privateKey taprootBtcChild)) (\<lambda>taprootHex.
     await (hex_decode L taprootHex) (\<lambda>privKey.
     await (getBtcNetwork L network) (\<lambda>btcNetwork.
     await (btc_getAddress L ''tr'' privKey btcNetwork) (\<lambda>ordinalsAddr.
     await (payments_p2wpkh L (pair_publicKey keyPair) (bitcoinjs_network_of network)) (\<lambda>redeem.
     await (payments_p2sh L redeem (pair_publicKey keyPair) (bitcoinjs_network_of network))
       (\<lambda>segwitBtcAddress.
     let btcAddr = payment_address segwitBtcAddress;
         btcPub = Buffer_toString_hex (pair_publicKey keyPair) in
     await (schnorr_getPublicKey L privKey) (\<lambda>taprootInternalPubKey.
     await (hex_encode L taprootInternalPubKey) (\<lambda>ordinalsPub.
       Inr \<lparr>stxAddress = stxAddr,
            btcAddress = btcAddr,
            ordinalsAddress = ordinalsAddr,
            masterPubKey = masterPub,
            stxPublicKey = stxPub,
            btcPublicKey = btcPub,
            ordinalsPublicKey = ordinalsPub,
            seedPhrase = mnemonic\<rparr>))))))))))))))))))"

section \<open>Private-key lookup helpers\<close>

definition getBtcPrivateKey :: "libs \<Rightarrow> constants \<Rightarrow> string \<Rightarrow> int \<Rightarrow> NetworkType \<Rightarrow> error + string" where
  "getBtcPrivateKey L C phrase index network =
     await (bip39_mnemonicToSeed L phrase) (\<lambda>seed.
     await (bip32_fromSeed L seed) (\<lambda>master.
     await (derivePath L master (getBitcoinDerivationPath C None index network)) (\<lambda>btcChild.
       nonnull_toString_hex (node_privateKey btcChild))))"

definition getBtcTaprootPrivateKey ::
  "libs \<Rightarrow> constants \<Rightarrow> string \<Rightarrow> int \<Rightarrow> NetworkType \<Rightarrow> error + string" where
  "getBtcTaprootPrivateKey L C phrase index network =
     await (bip39_mnemonicToSeed L phrase) (\<lambda>seed.
     await (bip32_fromSeed L seed) (\<lambda>master.
     await (derivePath L master (getTaprootDerivationPath C None index network)) (\<lambda>btcChild.
       nonnull_toString_hex (node_privateKey btcChild))))"

section \<open>Address validators\<close>

text \<open>
  \<^verbatim>\<open>result[0] && result[1]\<close>: a number is truthy unless it is zero, a string unless it
  is empty.
\<close>

definition validateStxAddress :: "libs \<Rightarrow> string \<Rightarrow> NetworkType \<Rightarrow> error + bool" where
  "validateStxAddress L stxAddr network =
     try_catch
       (await (c32addressDecode L stxAddr) (\<lambda>result.
          if fst result \<noteq> 0 \<and> snd result \<noteq> [] then
            (let addressVersion = fst result in
             if network = Mainnet then
               (if \<not> (addressVersion = AddressVersion_MainnetSingleSig \<or>
                       addressVersion = AddressVersion_MainnetMultiSig)
                then Inr False else Inr True)
             else
               (if fst result \<noteq> AddressVersion_TestnetSingleSig \<and>
                   fst result \<noteq> AddressVersion_TestnetMultiSig
                then Inr False else Inr True))
          else Inr False))
       (\<lambda>err. Inr False)"

definition validateBtcAddress :: "libs \<Rightarrow> string \<Rightarrow> NetworkType \<Rightarrow> error + bool" where
  "validateBtcAddress L btcAddr network =
     (let btcNetwork = (if network = Mainnet then btcAddressNetwork_mainnet
                        else btcAddressNetwork_testnet) in
      try_catch (validate L btcAddr btcNetwork) (\<lambda>err. Inr False))"

section \<open>Seed encryption through callbacks\<close>

record PasswordHash =
  salt :: string
  hash :: string

text \<open>The decryption handler takes \<^verbatim>\<open>Buffer | string\<close>.\<close>

datatype BufferOrString = OfBuffer bytes | OfString string

definition encryptMnemonicWithCallback ::
  "string \<Rightarrow> string \<Rightarrow> (string \<Rightarrow> error + PasswordHash) \<Rightarrow>
   (string \<Rightarrow> string \<Rightarrow> error + bytes) \<Rightarrow> error + string" where
  "encryptMnemonicWithCallback password seed passwordHashGenerator mnemonicEncryptionHandler =
     await (passwordHashGenerator password) (\<lambda>generated.
     await (mnemonicEncryptionHandler seed (hash generated)) (\<lambda>encryptedSeedBuffer.
       Inr (Buffer_toString_hex encryptedSeedBuffer)))"

definition decryptMnemonicWithCallback ::
  "string \<Rightarrow> string \<Rightarrow> (string \<Rightarrow> error + PasswordHash) \<Rightarrow>
   (BufferOrString \<Rightarrow> string \<Rightarrow> error + string) \<Rightarrow> error + string" where
  "decryptMnemonicWithCallback password encryptedSeed passwordHashGenerator mnemonicDecryptionHandler =
     await (passwordHashGenerator password) (\<lambda>generated.
     await (mnemonicDecryptionHandler (OfString encryptedSeed) (hash generated)) (\<lambda>phrase.
       Inr phrase))"

section \<open>Library calls as effects on a world\<close>

text \<open>
  Whether the wallet module returns the same record twice depends on what its
  collaborators do, so here a library call is an effect: it takes the world around the
  program (an entropy pool, a cache, a clock) and returns its result, or the error it
  throws, together with the world it leaves. \<^verbatim>\<open>crypto.randomBytes\<close> is such a call, and
  so is every other import. The result of a call is independent of the world when it is
  the same in whatever world the call starts.
\<close>

type_synonym ('w, 'a) effect = "'w \<Rightarrow> (error + 'a) \<times> 'w"

definition of_result :: "error + 'a \<Rightarrow> ('w, 'a) effect" where
  "of_result r s = (r, s)"

definition await_io :: "('w, 'a) effect \<Rightarrow> ('a \<Rightarrow> ('w, 'b) effect) \<Rightarrow> ('w, 'b) effect" where
  "await_io p k s = (case p s of (Inl e, s') \<Rightarrow> (Inl e, s') | (Inr x, s') \<Rightarrow> k x s')"

definition world_independent :: "('w, 'a) effect \<Rightarrow> bool" where
  "world_independent p = (\<forall>s t. fst (p s) = fst (p t))"

record 'w io_libs =
  io_randomBytes :: "nat \<Rightarrow> ('w, bytes) effect"
  io_entropyToMnemonic :: "bytes \<Rightarrow> ('w, string) effect"
  io_mnemonicToSeed :: "string \<Rightarrow> ('w, bytes) effect"
  io_fromSeed :: "bytes \<Rightarrow> ('w, BIP32Interface) effect"
  io_derivePath :: "BIP32Interface \<Rightarrow> string \<Rightarrow> ('w, BIP32Interface) effect"
  io_ecpair_of_key :: "bytes \<Rightarrow> ('w, ECPairInterface) effect"
  io_ecPairToHexString :: "ECPairInterface \<Rightarrow> ('w, string) effect"
  io_getAddressFromPrivateKey :: "string \<Rightarrow> TransactionVersion \<Rightarrow> ('w, string) effect"
  io_createStacksPrivateKey :: "string \<Rightarrow> ('w, StacksPrivateKey) effect"
  io_getPublicKey :: "StacksPrivateKey \<Rightarrow> ('w, StacksPublicKey) effect"
  io_publicKeyToString :: "StacksPublicKey \<Rightarrow> ('w, string) effect"
  io_hex_decode :: "string \<Rightarrow> ('w, bytes) effect"
  io_hex_encode :: "bytes \<Rightarrow> ('w, string) effect"
  io_getBtcNetwork :: "NetworkType \<Rightarrow> ('w, BTC_NETWORK) effect"
  io_btc_getAddress :: "string \<Rightarrow> bytes \<Rightarrow> BTC_NETWORK \<Rightarrow> ('w, string option) effect"
  io_payments_p2wpkh :: "bytes \<Rightarrow> bitcoinjs_network \<Rightarrow> ('w, Payment) effect"
  io_payments_p2sh :: "Payment \<Rightarrow> bytes \<Rightarrow> bitcoinjs_network \<Rightarrow> ('w, Payment) effect"
  io_schnorr_getPublicKey :: "bytes \<Rightarrow> ('w, bytes) effect"

text \<open>
  The libraries that \<^verbatim>\<open>walletFromSeedPhrase\<close> calls are deterministic when the result
  of each of these calls is independent of the world. Nothing is asked of
  \<^verbatim>\<open>crypto.randomBytes\<close> nor of \<^verbatim>\<open>bip39.entropyToMnemonic\<close>.
\<close>

definition deterministic_libs :: "'w io_libs \<Rightarrow> bool" where
  "deterministic_libs L =
     ((\<forall>m. world_independent (io_mnemonicToSeed L m)) \<and>
      (\<forall>seed. world_independent (io_fromSeed L seed)) \<and>
      (\<forall>node path. world_independent (io_derivePath L node path)) \<and>
      (\<forall>key. world_independent (io_ecpair_of_key L key)) \<and>
      (\<forall>pair. world_independent (io_ecPairToHexString L pair)) \<and>
      (\<forall>key version. world_independent (io_getAddressFromPrivateKey L key version)) \<and>
      (\<forall>key. world_independent (io_createStacksPrivateKey L key)) \<and>
      (\<forall>key. world_independent (io_getPublicKey L key)) \<and>
      (\<forall>pub. world_independent (io_publicKeyToString L pub)) \<and>
      (\<forall>str. world_independent (io_hex_decode L str)) \<and>
      (\<forall>buf. world_independent (io_hex_encode L buf)) \<and>
      (\<forall>network. world_independent (io_getBtcNetwork L network)) \<and>
      (\<forall>kind key network. world_independent (io_btc_getAddress L kind key network)) \<and>
      (\<forall>pub network. world_independent (io_payments_p2wpkh L pub network)) \<and>
      (\<forall>redeem pub network. world_independent (io_payments_p2sh L redeem pub network)) \<and>
      (\<forall>key. world_independent (io_schnorr_getPublicKey L key)))"

text \<open>
  Modelled from the spec: \<^verbatim>\<open>ECPair.fromPrivateKey\<close> of \<^verbatim>\<open>../utils/ecpair\<close> as an effect,
  with the library-reported error of section 4.4 for a missing key, as in
  \<open>ECPair_fromPrivateKey\<close>.
\<close>

definition ECPair_fromPrivateKey_io ::
  "'w io_libs \<Rightarrow> bytes option \<Rightarrow> ('w, ECPairInterface) effect" where
  "ECPair_fromPrivateKey_io L key =
     (case key of
        None \<Rightarrow> of_result (Inl (TypeError ''Expected Buffer, got undefined''))
      | Some k \<Rightarrow> io_ecpair_of_key L k)"

text \<open>
  The wallet module over these calls: the same statements as above, in the same order,
  each call made in the world that the call before it left.
\<close>

definition deriveStxAddressChain_io ::
  "'w io_libs \<Rightarrow> constants \<Rightarrow> ChainID \<Rightarrow> int option \<Rightarrow> BIP32Interface \<Rightarrow> ('w, Keychain) effect" where
  "deriveStxAddressChain_io L C chain index_arg rootNode =
     (let index = (case index_arg of None \<Rightarrow> 0 | Some i \<Rightarrow> i) in
      await_io (io_derivePath L rootNode (getDerivationPath C chain index)) (\<lambda>child.
        case node_privateKey child of
          None \<Rightarrow> of_result
            (Inl (Error ''Unable to derive private key from `rootNode`, bip32 master keychain''))
        | Some key \<Rightarrow>
            await_io (ECPair_fromPrivateKey_io L (Some key)) (\<lambda>ecPair.
            await_io (io_ecPairToHexString L ecPair) (\<lambda>hexKey.
              let txVersion = (if chain = ChainID_Mainnet then TransactionVersion_Mainnet
                               else TransactionVersion_Testnet) in
              await_io (io_getAddressFromPrivateKey L hexKey txVersion) (\<lambda>addr.
                of_result (Inr \<lparr>childKey = child, address = addr, privateKey = hexKey\<rparr>))))))"

definition walletFromSeedPhrase_io ::
  "'w io_libs \<Rightarrow> constants \<Rightarrow> string \<Rightarrow> int \<Rightarrow> NetworkType \<Rightarrow> ('w, BaseWallet) effect" where
  "walletFromSeedPhrase_io L C mnemonic index network =
     await_io (io_mnemonicToSeed L mnemonic) (\<lambda>seed.
     await_io (io_fromSeed L (Buffer_from seed)) (\<lambda>rootNode.
     await_io (deriveStxAddressChain_io L C
                 (if network = Mainnet then ChainID_Mainnet else ChainID_Testnet) (Some index)
                 rootNode)
       (\<lambda>keychain.
     let stxAddr = address keychain in
     await_io (io_fromSeed L seed) (\<lambda>master.
     let masterPub = Buffer_toString_hex (node_publicKey master) in
     await_io (io_createStacksPrivateKey L (privateKey keychain)) (\<lambda>stacksKey.
     await_io (io_getPublicKey L stacksKey) (\<lambda>stacksPub.
     await_io (io_publicKeyToString L stacksPub) (\<lambda>stxPub.
     await_io (io_derivePath L master (getBitcoinDerivationPath C None index network)) (\<lambda>btcChild.
     await_io (ECPair_fromPrivateKey_io L (node_privateKey btcChild)) (\<lambda>keyPair.
     await_io (io_derivePath L master (getTaprootDerivationPath C None index network))
       (\<lambda>taprootBtcChild.
     await_io (of_result (nonnull_toString_hex (node_privateKey taprootBtcChild))) (\<lambda>taprootHex.
     await_io (io_hex_decode L taprootHex) (\<lambda>privKey.
     await_io (io_getBtcNetwork L network) (\<lambda>btcNetwork.
     await_io (io_btc_getAddress L ''tr'' privKey btcNetwork) (\<lambda>ordinalsAddr.
     await_io (io_payments_p2wpkh L (pair_publicKey keyPair) (bitcoinjs_network_of network))
       (\<lambda>redeem.
     await_io (io_payments_p2sh L redeem (pair_publicKey keyPair) (bitcoinjs_network_of network))
       (\<lambda>segwitBtcAddress.
     let btcAddr = payment_address segwitBtcAddress;
         btcPub = Buffer_toString_hex (pair_publicKey keyPair) in
     await_io (io_schnorr_getPublicKey L privKey) (\<lambda>taprootInternalPubKey.
     await_io (io_hex_encode L taprootInternalPubKey) (\<lambda>ordinalsPub.
       of_result (Inr \<lparr>stxAddress = stxAddr,
            btcAddress = btcAddr,
            ordinalsAddress = ordinalsAddr,
            masterPubKey = masterPub,
            stxPublicKey = stxPub,
            btcPublicKey = btcPub,
            ordinalsPublicKey = ordinalsPub,
            seedPhrase = mnemonic\<rparr>)))))))))))))))))))"

definition generateMnemonic_io :: "'w io_libs \<Rightarrow> constants \<Rightarrow> ('w, string) effect" where
  "generateMnemonic_io L C =
     await_io (io_randomBytes L (ENTROPY_BYTES C)) (\<lambda>entropy.
     await_io (io_entropyToMnemonic L entropy) (\<lambda>mnemonic.
       of_result (Inr mnemonic)))"

definition newWallet_io :: "'w io_libs \<Rightarrow> constants \<Rightarrow> ('w, BaseWallet) effect" where
  "newWallet_io L C =
     await_io (generateMnemonic_io L C) (\<lambda>mnemonic.
       walletFromSeedPhrase_io L C mnemonic 0 Mainnet)"

text \<open>
  Libraries given as functions, seen as effects: every call returns what the function
  returns and moves the world on by \<open>step\<close>. The entropy source is given apart.
\<close>

definition io_libs_of ::
  "('w \<Rightarrow> 'w) \<Rightarrow> (nat \<Rightarrow> ('w, bytes) effect) \<Rightarrow> (bytes \<Rightarrow> error + string) \<Rightarrow> libs \<Rightarrow> 'w io_libs" where
  "io_libs_of step random toMnemonic L =
     \<lparr>io_randomBytes = random,
      io_entropyToMnemonic = (\<lambda>e s. (toMnemonic e, step s)),
      io_mnemonicToSeed = (\<lambda>m s. (bip39_mnemonicToSeed L m, step s)),
      io_fromSeed = (\<lambda>seed s. (bip32_fromSeed L seed, step s)),
      io_derivePath = (\<lambda>node path s. (derivePath L node path, step s)),
      io_ecpair_of_key = (\<lambda>k s. (ecpair_of_key L k, step s)),
      io_ecPairToHexString = (\<lambda>p s. (ecPairToHexString L p, step s)),
      io_getAddressFromPrivateKey = (\<lambda>k v s. (getAddressFromPrivateKey L k v, step s)),
      io_createStacksPrivateKey = (\<lambda>k s. (createStacksPrivateKey L k, step s)),
      io_getPublicKey = (\<lambda>k s. (getPublicKey L k, step s)),
      io_publicKeyToString = (\<lambda>p s. (publicKeyToString L p, step s)),
      io_hex_decode = (\<lambda>x s. (hex_decode L x, step s)),
      io_hex_encode = (\<lambda>b s. (hex_encode L b, step s)),
      io_getBtcNetwork = (\<lambda>n s. (getBtcNetwork L n, step s)),
      io_btc_getAddress = (\<lambda>t k n s. (btc_getAddress L t k n, step s)),
      io_payments_p2wpkh = (\<lambda>p n s. (payments_p2wpkh L p n, step s)),
      io_payments_p2sh = (\<lambda>r p n s. (payments_p2sh L r p n, step s)),
      io_schnorr_getPublicKey = (\<lambda>k s. (schnorr_getPublicKey L k, step s))\<rparr>"

section \<open>A small instance of the collaborators\<close>

text \<open>
  Stand-ins for the constants, the libraries and the callbacks, small enough to run the
  definitions above on concrete inputs. The stand-in for \<^verbatim>\<open>bip32.fromSeed\<close> yields a
  root without private key for the empty mnemonic, whose children have none either.
\<close>

definition sample_constants :: constants where
  "sample_constants =
     \<lparr>BTC_SEGWIT_PATH_PURPOSE = ''m/84'/'',
      BTC_TAPROOT_PATH_PURPOSE = ''m/86'/'',
      BTC_WRAPPED_SEGWIT_PATH_PURPOSE = ''m/49'/'',
      ENTROPY_BYTES = 32,
      STX_PATH_WITHOUT_INDEX = ''m/44'/5757'/0'/0/''\<rparr>"

definition byte_of_char :: "char \<Rightarrow> 8 word" where
  "byte_of_char c = of_nat (of_char c)"

definition char_of_byte :: "8 word \<Rightarrow> char" where
  "char_of_byte b = char_of (unat b)"

definition hex_value :: "char \<Rightarrow> nat option" where
  "hex_value c =
     map_of (zip ''0123456789abcdef'' [0, 1, 2, 3, 4, 5, 6, 7, 8, 9, 10, 11, 12, 13, 14, 15]) c"

fun unhex :: "string \<Rightarrow> bytes option" where
  "unhex [] = Some []"
| "unhex [c] = None"
| "unhex (a # b # cs) =
     (case (hex_value a, hex_value b, unhex cs) of
        (Some x, Some y, Some rest) \<Rightarrow> Some (of_nat (16 * x + y) # rest)
      | _ \<Rightarrow> None)"

definition sample_mnemonicToSeed :: "string \<Rightarrow> error + bytes" where
  "sample_mnemonicToSeed m = Inr [of_nat (length m), 1]"

definition sample_fromSeed :: "bytes \<Rightarrow> error + BIP32Interface" where
  "sample_fromSeed seed =
     (case seed of
        [] \<Rightarrow> Inl (TypeError ''Seed should be at least 128 bits'')
      | b # bs \<Rightarrow> Inr \<lparr>node_privateKey = (if b = 0 then None else Some seed),
                       node_publicKey = rev seed, node_chainCode = bs\<rparr>)"

definition sample_derivePath :: "BIP32Interface \<Rightarrow> string \<Rightarrow> error + BIP32Interface" where
  "sample_derivePath node path =
     (if length path < 4 then Inl (TypeError ''Expected BIP32Path'')
      else
        (let step = [byte_of_char (path ! 2), byte_of_char (path ! 3), byte_of_char (last path)] in
         Inr \<lparr>node_privateKey = map_option (\<lambda>k. k @ step) (node_privateKey node),
              node_publicKey = node_publicKey node @ step,
              node_chainCode = node_chainCode node\<rparr>))"

definition sample_c32addressDecode :: "string \<Rightarrow> error + (int \<times> string)" where
  "sample_c32addressDecode s =
     (if s = ''SP2J6ZY48GV1EZ5V2V5RB9MP66SW86PYKKNRV9EJ7''
        then Inr (22, ''a46ff88886c2ef9762d970b4d2c63678835bd39d'')
      else if s = ''ST2J6ZY48GV1EZ5V2V5RB9MP66SW86PYKKQYAC0RQ''
        then Inr (26, ''a46ff88886c2ef9762d970b4d2c63678835bd39d'')
      else if s = ''S02J6ZY48GV1EZ5V2V5RB9MP66SW86PYKKPVKG2CE''
        then Inr (0, ''a46ff88886c2ef9762d970b4d2c63678835bd39d'')
      else if s = ''SP37JJX3D'' then Inr (22, [])
      else Inl (Error ''Invalid c32 address''))"

definition sample_libs :: libs where
  "sample_libs =
     \<lparr>bip39_mnemonicToSeed = sample_mnemonicToSeed,
      bip32_fromSeed = sample_fromSeed,
      derivePath = sample_derivePath,
      ecpair_of_key = (\<lambda>k. Inr \<lparr>pair_privateKey = Some k, pair_publicKey = rev k,
                                 pair_compressed = True\<rparr>),
      ecPairToHexString = (\<lambda>p. case pair_privateKey p of
                                  None \<Rightarrow> Inl (Error ''Missing private key'')
                                | Some k \<Rightarrow> Inr (Buffer_toString_hex k @
                                              (if pair_compressed p then ''01'' else []))),
      getAddressFromPrivateKey = (\<lambda>k v. Inr ((if v = TransactionVersion_Mainnet then ''SP''
                                               else ''ST'') @ k)),
      createStacksPrivateKey = (\<lambda>s. case unhex s of
                                       None \<Rightarrow> Inl (Error ''Invalid private key'')
                                     | Some k \<Rightarrow> Inr \<lparr>spk_data = k, spk_compressed = True\<rparr>),
      getPublicKey = (\<lambda>k. Inr \<lparr>spub_data = rev (spk_data k)\<rparr>),
      publicKeyToString = (\<lambda>p. Inr (Buffer_toString_hex (spub_data p))),
      hex_decode = (\<lambda>s. case unhex s of
                           None \<Rightarrow> Inl (Error ''padded hex string expected'')
                         | Some b \<Rightarrow> Inr b),
      hex_encode = (\<lambda>b. Inr (Buffer_toString_hex b)),
      getBtcNetwork = (\<lambda>n. Inr \<lparr>bech32 = (if n = Mainnet then ''bc'' else ''tb''),
                                 pubKeyHash = (if n = Mainnet then 0 else 111),
                                 scriptHash = (if n = Mainnet then 5 else 196),
                                 wif = (if n = Mainnet then 128 else 239)\<rparr>),
      btc_getAddress = (\<lambda>t k n. Inr (Some (bech32 n @ ''1p'' @ Buffer_toString_hex k))),
      payments_p2wpkh = (\<lambda>pub n. Inr \<lparr>payment_address = Some (''w'' @ Buffer_toString_hex pub),
                                      payment_output = Some pub\<rparr>),
      payments_p2sh = (\<lambda>redeem pub n.
                         Inr \<lparr>payment_address = Some ((if n = networks_bitcoin then ''3'' else ''2'')
                                                   @ Buffer_toString_hex pub),
                              payment_output = payment_output redeem\<rparr>),
      schnorr_getPublicKey = (\<lambda>k. Inr (rev k)),
      c32addressDecode = sample_c32addressDecode,
      validate = (\<lambda>s n. case s of
                           [] \<Rightarrow> Inl (Error ''Invalid address'')
                         | c # cs \<Rightarrow> Inr (c = (if n = btcAddressNetwork_mainnet then CHR ''3''
                                                else CHR ''2'')))\<rparr>"

definition sample_passwordHashGenerator :: "string \<Rightarrow> error + PasswordHash" where
  "sample_passwordHashGenerator password =
     (if password = [] then Inl (Error ''empty password'')
      else Inr \<lparr>salt = ''salt'', hash = rev password\<rparr>)"

definition sample_encryptionHandler :: "string \<Rightarrow> string \<Rightarrow> error + bytes" where
  "sample_encryptionHandler seed key = Inr (map byte_of_char (key @ seed))"

definition sample_decryptionHandler :: "BufferOrString \<Rightarrow> string \<Rightarrow> error + string" where
  "sample_decryptionHandler data key =
     (case (case data of OfBuffer b \<Rightarrow> Some b | OfString s \<Rightarrow> unhex s) of
        None \<Rightarrow> Inl (Error ''not a hex string'')
      | Some b \<Rightarrow>
          (let plain = map char_of_byte b in
           if take (length key) plain = key then Inr (drop (length key) plain)
           else Inl (Error ''wrong password'')))"

text \<open>
  The stand-in libraries as effects on a counter: every call adds one to the counter,
  and the entropy source returns bytes read off the counter.
\<close>

definition sample_randomBytes :: "nat \<Rightarrow> (nat, bytes) effect" where
  "sample_randomBytes n s = (Inr (replicate n (of_nat s)), Suc s)"

definition sample_io_libs :: "nat io_libs" where
  "sample_io_libs =
     io_libs_of Suc sample_randomBytes (\<lambda>e. Inr (Buffer_toString_hex e)) sample_libs"

section \<open>Sequencing and evaluation lemmas\<close>

lemma await_Inl [simp]: "await (Inl e) k = Inl e"
  by (simp add: await_def)

lemma await_Inr [simp]: "await (Inr x) k = k x"
  by (simp add: await_def)

lemma await_eq_Inr: "(await m k = Inr y) = (\<exists>x. m = Inr x \<and> k x = Inr y)"
  by (cases m) simp_all

lemma try_catch_Inl [simp]: "try_catch (Inl e) h = h e"
  by (simp add: try_catch_def)

lemma try_catch_Inr [simp]: "try_catch (Inr v) h = Inr v"
  by (simp add: try_catch_def)

lemmas path_defs = getBitcoinDerivationPath_def getTaprootDerivationPath_def
  getSegwitDerivationPath_def getDerivationPath_def derivationPaths_def accountIndex_of_def
  bigint_toString_def digit_char_def

lemmas host_defs = hex_digit_def Buffer_toString_hex_def Buffer_from_def BigInt_def
  ECPair_fromPrivateKey_def nonnull_toString_hex_def bitcoinjs_network_of_def Let_def

lemmas sample_defs = sample_libs_def sample_constants_def sample_mnemonicToSeed_def
  sample_fromSeed_def sample_derivePath_def sample_c32addressDecode_def byte_of_char_def
  char_of_byte_def hex_value_def

lemma sample_wallet_mainnet:
  "walletFromSeedPhrase sample_libs sample_constants ''ab'' 0 Mainnet =
     Inr \<lparr>stxAddress = ''SP020134343001'', btcAddress = Some ''33039340102'',
          ordinalsAddress = Some ''bc1p0201383630'', masterPubKey = ''0102'',
          stxPublicKey = ''013034340102'', btcPublicKey = ''3039340102'',
          ordinalsPublicKey = ''3036380102'', seedPhrase = ''ab''\<rparr>"
  by (simp add: walletFromSeedPhrase_def deriveStxAddressChain_def sample_defs path_defs host_defs)

section \<open>Determinism of wallet assembly\<close>

lemma world_independent_of_result: "world_independent (of_result r)"
  by (simp add: world_independent_def of_result_def)

lemma world_independent_await_io:
  assumes "world_independent p" and "\<And>x. world_independent (k x)"
  shows "world_independent (await_io p k)"
proof -
  have "fst (await_io p k s) = fst (await_io p k t)" for s t
  proof -
    obtain r s' where ps: "p s = (r, s')" by (cases "p s")
    obtain r' t' where pt: "p t = (r', t')" by (cases "p t")
    from assms(1) ps pt have rr: "r' = r"
      by (metis fst_conv world_independent_def)
    show ?thesis
    proof (cases r)
      case (Inl e)
      with ps pt rr show ?thesis by (simp add: await_io_def)
    next
      case (Inr x)
      from assms(2) [of x] have "fst (k x s') = fst (k x t')"
        by (simp add: world_independent_def)
      with Inr ps pt rr show ?thesis by (simp add: await_io_def)
    qed
  qed
  then show ?thesis by (simp add: world_independent_def)
qed

lemma deriveStxAddressChain_io_independent:
  assumes "deterministic_libs L"
  shows "world_independent (deriveStxAddressChain_io L C chain index_arg rootNode)"
  using assms
  by (auto simp: deriveStxAddressChain_io_def ECPair_fromPrivateKey_io_def deterministic_libs_def
      Let_def intro!: world_independent_await_io world_independent_of_result split: option.splits)

lemma walletFromSeedPhrase_io_independent:
  assumes "deterministic_libs L"
  shows "world_independent (walletFromSeedPhrase_io L C mnemonic index network)"
  unfolding walletFromSeedPhrase_io_def Let_def
  apply (intro world_independent_await_io world_independent_of_result
      deriveStxAddressChain_io_independent assms)
  using assms
  apply (auto simp: ECPair_fromPrivateKey_io_def deterministic_libs_def
      intro!: world_independent_of_result split: option.splits)
  done

text \<open>
  Over libraries given as functions, the assembly with effects returns what
  \<open>walletFromSeedPhrase\<close> returns: the two are the same program.
\<close>

lemma fst_await_io:
  assumes "\<And>s. fst (p s) = m" and "\<And>x s. fst (k x s) = k' x"
  shows "fst (await_io p k s) = await m k'"
proof -
  obtain r s' where ps: "p s = (r, s')" by (cases "p s")
  with assms(1) [of s] have "r = m" by simp
  with ps assms(2) show ?thesis
    by (cases m) (simp_all add: await_io_def await_def)
qed

lemma fst_of_result: "fst (of_result r s) = r"
  by (simp add: of_result_def)

lemma deriveStxAddressChain_io_of_libs:
  "fst (deriveStxAddressChain_io (io_libs_of step random toMnemonic L) C chain index_arg rootNode s)
     = deriveStxAddressChain L C chain index_arg rootNode"
  unfolding deriveStxAddressChain_io_def deriveStxAddressChain_def Let_def
  by (intro fst_await_io)
    (auto simp: io_libs_of_def ECPair_fromPrivateKey_io_def ECPair_fromPrivateKey_def
      fst_of_result intro!: fst_await_io split: option.splits)

lemma walletFromSeedPhrase_io_of_libs:
  "fst (walletFromSeedPhrase_io (io_libs_of step random toMnemonic L) C mnemonic index network s)
     = walletFromSeedPhrase L C mnemonic index network"
  unfolding walletFromSeedPhrase_io_def walletFromSeedPhrase_def Let_def
  by (intro fst_await_io deriveStxAddressChain_io_of_libs)
    (auto simp: io_libs_of_def ECPair_fromPrivateKey_io_def ECPair_fromPrivateKey_def
      fst_of_result split: option.splits)

lemma deterministic_io_libs_of: "deterministic_libs (io_libs_of step random toMnemonic L)"
  by (simp add: deterministic_libs_def io_libs_of_def world_independent_def)

lemma sample_io_libs_deterministic: "deterministic_libs sample_io_libs"
  by (simp add: sample_io_libs_def deterministic_io_libs_of)

lemmas io_defs = walletFromSeedPhrase_io_def deriveStxAddressChain_io_def
  ECPair_fromPrivateKey_io_def await_io_def of_result_def io_libs_of_def sample_io_libs_def

lemma sample_wallet_first_call:
  "walletFromSeedPhrase_io sample_io_libs sample_constants ''ab'' 7 Testnet 0 =
     (Inr \<lparr>stxAddress = ''ST020134343701'', btcAddress = Some ''23739340102'',
           ordinalsAddress = Some ''tb1p0201383637'', masterPubKey = ''0102'',
           stxPublicKey = ''013734340102'', btcPublicKey = ''3739340102'',
           ordinalsPublicKey = ''3736380102'', seedPhrase = ''ab''\<rparr>, 20)"
  by (simp add: io_defs sample_defs path_defs host_defs)

lemma sample_wallet_second_call:
  "walletFromSeedPhrase_io sample_io_libs sample_constants ''ab'' 7 Testnet 20 =
     (Inr \<lparr>stxAddress = ''ST020134343701'', btcAddress = Some ''23739340102'',
           ordinalsAddress = Some ''tb1p0201383637'', masterPubKey = ''0102'',
           stxPublicKey = ''013734340102'', btcPublicKey = ''3739340102'',
           ordinalsPublicKey = ''3736380102'', seedPhrase = ''ab''\<rparr>, 40)"
  by (simp add: io_defs sample_defs path_defs host_defs)

text \<open>
  The property is one of the program, not of the way it is written down: over the same
  deterministic libraries, \<^verbatim>\<open>newWallet\<close> draws its mnemonic from
  \<^verbatim>\<open>crypto.randomBytes\<close> and returns different records in different worlds.
\<close>

lemma newWallet_depends_on_world:
  "fst (newWallet_io sample_io_libs sample_constants 0) \<noteq>
   fst (newWallet_io sample_io_libs sample_constants 1)"
  by code_simp

text \<open>
  Claim C1. Let the result of every library call that \<^verbatim>\<open>walletFromSeedPhrase\<close> makes be
  independent of the world. Then for a fixed mnemonic, index and network, two calls of
  \<^verbatim>\<open>walletFromSeedPhrase\<close>, started in any two worlds (the second, say, in the world that
  the first has left), return the same result, and two wallet records so returned agree
  in every field: stxAddress, btcAddress, ordinalsAddress, masterPubKey, stxPublicKey,
  btcPublicKey, ordinalsPublicKey and seedPhrase.
\<close>

theorem walletFromSeedPhrase_deterministic:
  assumes "deterministic_libs L"
    and "walletFromSeedPhrase_io L C mnemonic index network s = (r1, s')"
    and "walletFromSeedPhrase_io L C mnemonic index network t = (r2, t')"
  shows "r1 = r2 \<and>
    (\<forall>w1 w2. r1 = Inr w1 \<and> r2 = Inr w2 \<longrightarrow>
       stxAddress w1 = stxAddress w2 \<and> btcAddress w1 = btcAddress w2 \<and>
       ordinalsAddress w1 = ordinalsAddress w2 \<and> masterPubKey w1 = masterPubKey w2 \<and>
       stxPublicKey w1 = stxPublicKey w2 \<and> btcPublicKey w1 = btcPublicKey w2 \<and>
       ordinalsPublicKey w1 = ordinalsPublicKey w2 \<and> seedPhrase w1 = seedPhrase w2)"
proof -
  from assms(1) have "world_independent (walletFromSeedPhrase_io L C mnemonic index network)"
    by (rule walletFromSeedPhrase_io_independent)
  then have "fst (walletFromSeedPhrase_io L C mnemonic index network s) =
      fst (walletFromSeedPhrase_io L C mnemonic index network t)"
    by (simp add: world_independent_def)
  with assms(2,3) have "r1 = r2" by simp
  then show ?thesis by auto
qed

theorem walletFromSeedPhrase_deterministic_witness:
  "deterministic_libs sample_io_libs \<and>
   walletFromSeedPhrase_io sample_io_libs sample_constants ''ab'' 7 Testnet 0 =
     (Inr \<lparr>stxAddress = ''ST020134343701'', btcAddress = Some ''23739340102'',
           ordinalsAddress = Some ''tb1p0201383637'', masterPubKey = ''0102'',
           stxPublicKey = ''013734340102'', btcPublicKey = ''3739340102'',
           ordinalsPublicKey = ''3736380102'', seedPhrase = ''ab''\<rparr>, 20) \<and>
   walletFromSeedPhrase_io sample_io_libs sample_constants ''ab'' 7 Testnet 20 =
     (Inr \<lparr>stxAddress = ''ST020134343701'', btcAddress = Some ''23739340102'',
           ordinalsAddress = Some ''tb1p0201383637'', masterPubKey = ''0102'',
           stxPublicKey = ''013734340102'', btcPublicKey = ''3739340102'',
           ordinalsPublicKey = ''3736380102'', seedPhrase = ''ab''\<rparr>, 40)"
  using walletFromSeedPhrase_deterministic
      [OF sample_io_libs_deterministic sample_wallet_first_call sample_wallet_second_call]
    sample_io_libs_deterministic sample_wallet_first_call sample_wallet_second_call
  by simp

section \<open>Derivation paths\<close>

text \<open>
  Claim C2. The Stacks derivation path used by \<^verbatim>\<open>deriveStxAddressChain\<close> is the template
  selected by the chain ID followed by the decimal index; the template has no account
  segment and does not depend on the index. Both chain IDs select the template
  \<^verbatim>\<open>STX_PATH_WITHOUT_INDEX\<close>, and the child key of a derived key chain is the node at
  that path.
\<close>

theorem stx_path_template:
  "getDerivationPath C chain index = derivationPaths C chain @ bigint_toString index \<and>
   derivationPaths C ChainID_Mainnet = STX_PATH_WITHOUT_INDEX C \<and>
   derivationPaths C ChainID_Testnet = STX_PATH_WITHOUT_INDEX C \<and>
   (\<forall>k. deriveStxAddressChain L C chain (Some index) root = Inr k \<longrightarrow>
      derivePath L root (derivationPaths C chain @ bigint_toString index) = Inr (childKey k))"
  by (auto simp: getDerivationPath_def derivationPaths_def deriveStxAddressChain_def await_eq_Inr
      split: option.splits)

theorem stx_path_template_witness:
  "deriveStxAddressChain sample_libs sample_constants ChainID_Testnet (Some 5)
     \<lparr>node_privateKey = Some [2, 1], node_publicKey = [1, 2], node_chainCode = [1]\<rparr> =
     Inr \<lparr>childKey = \<lparr>node_privateKey = Some [2, 1, 52, 52, 53],
                       node_publicKey = [1, 2, 52, 52, 53], node_chainCode = [1]\<rparr>,
          address = ''ST020134343501'', privateKey = ''020134343501''\<rparr> \<and>
   getDerivationPath sample_constants ChainID_Testnet 5 = ''m/44'/5757'/0'/0/5'' \<and>
   derivePath sample_libs
     \<lparr>node_privateKey = Some [2, 1], node_publicKey = [1, 2], node_chainCode = [1]\<rparr>
     ''m/44'/5757'/0'/0/5'' =
     Inr \<lparr>node_privateKey = Some [2, 1, 52, 52, 53],
          node_publicKey = [1, 2, 52, 52, 53], node_chainCode = [1]\<rparr>"
  using stx_path_template [where C = sample_constants and chain = ChainID_Testnet and index = 5
      and L = sample_libs
      and root = "\<lparr>node_privateKey = Some [2, 1], node_publicKey = [1, 2], node_chainCode = [1]\<rparr>"]
  by (simp add: deriveStxAddressChain_def sample_defs path_defs host_defs)

text \<open>
  Claim C4. With the account omitted, index 0 and network Mainnet,
  \<^verbatim>\<open>getBitcoinDerivationPath\<close> returns the wrapped-segwit purpose prefix followed by
  \<^verbatim>\<open>0'/0'/0/0\<close>. For every account and index the Mainnet and the Testnet path are the
  same string except for the coin-type character right after the purpose prefix, which
  is 0 on Mainnet and 1 on Testnet.
\<close>

theorem getBitcoinDerivationPath_format:
  "getBitcoinDerivationPath C None 0 Mainnet = BTC_WRAPPED_SEGWIT_PATH_PURPOSE C @ ''0'/0'/0/0'' \<and>
   getBitcoinDerivationPath C account index Mainnet =
     BTC_WRAPPED_SEGWIT_PATH_PURPOSE C @ ''0'' @
       ('''/'' @ accountIndex_of account @ '''/0/'' @ bigint_toString index) \<and>
   getBitcoinDerivationPath C account index Testnet =
     BTC_WRAPPED_SEGWIT_PATH_PURPOSE C @ ''1'' @
       ('''/'' @ accountIndex_of account @ '''/0/'' @ bigint_toString index)"
  by (simp add: getBitcoinDerivationPath_def accountIndex_of_def bigint_toString_def digit_char_def)

section \<open>Private keys of the lookup helpers and of wallet assembly\<close>

text \<open>
  Claim C3. Whenever \<^verbatim>\<open>walletFromSeedPhrase\<close> succeeds, \<^verbatim>\<open>getBtcPrivateKey\<close> on the
  same seed phrase, index and network returns the hex form of the private key of the
  wrapped-segwit child node that the assembly derived, the node whose key pair gives
  \<^verbatim>\<open>btcPublicKey\<close>; and \<^verbatim>\<open>getBtcTaprootPrivateKey\<close> returns the hex form of the private
  key of the taproot child node that the assembly derived, the node whose schnorr public
  key gives \<^verbatim>\<open>ordinalsPublicKey\<close>.
\<close>

theorem private_key_round_trip:
  assumes "walletFromSeedPhrase L C mnemonic index network = Inr w"
  shows "\<exists>seed master btcChild btcKey keyPair taprootChild taprootKey privKey internalPub.
    bip39_mnemonicToSeed L mnemonic = Inr seed \<and>
    bip32_fromSeed L seed = Inr master \<and>
    derivePath L master (getBitcoinDerivationPath C None index network) = Inr btcChild \<and>
    node_privateKey btcChild = Some btcKey \<and>
    ECPair_fromPrivateKey L (Some btcKey) = Inr keyPair \<and>
    btcPublicKey w = Buffer_toString_hex (pair_publicKey keyPair) \<and>
    getBtcPrivateKey L C mnemonic index network = Inr (Buffer_toString_hex btcKey) \<and>
    derivePath L master (getTaprootDerivationPath C None index network) = Inr taprootChild \<and>
    node_privateKey taprootChild = Some taprootKey \<and>
    hex_decode L (Buffer_toString_hex taprootKey) = Inr privKey \<and>
    schnorr_getPublicKey L privKey = Inr internalPub \<and>
    hex_encode L internalPub = Inr (ordinalsPublicKey w) \<and>
    getBtcTaprootPrivateKey L C mnemonic index network = Inr (Buffer_toString_hex taprootKey)"
proof -
  from assms obtain seed master btcChild btcKey keyPair taprootChild taprootKey privKey internalPub
    where seed: "bip39_mnemonicToSeed L mnemonic = Inr seed"
      and master: "bip32_fromSeed L seed = Inr master"
      and btcChild: "derivePath L master (getBitcoinDerivationPath C None index network) = Inr btcChild"
      and btcKey: "node_privateKey btcChild = Some btcKey"
      and keyPair: "ECPair_fromPrivateKey L (Some btcKey) = Inr keyPair"
      and btcPub: "btcPublicKey w = Buffer_toString_hex (pair_publicKey keyPair)"
      and taprootChild:
        "derivePath L master (getTaprootDerivationPath C None index network) = Inr taprootChild"
      and taprootKey: "node_privateKey taprootChild = Some taprootKey"
      and privKey: "hex_decode L (Buffer_toString_hex taprootKey) = Inr privKey"
      and internalPub: "schnorr_getPublicKey L privKey = Inr internalPub"
      and ordinalsPub: "hex_encode L internalPub = Inr (ordinalsPublicKey w)"
    by (auto simp: walletFromSeedPhrase_def await_eq_Inr Let_def Buffer_from_def
        ECPair_fromPrivateKey_def nonnull_toString_hex_def split: option.splits)
  have "getBtcPrivateKey L C mnemonic index network = Inr (Buffer_toString_hex btcKey)"
    by (simp add: getBtcPrivateKey_def seed master btcChild btcKey nonnull_toString_hex_def)
  moreover have
    "getBtcTaprootPrivateKey L C mnemonic index network = Inr (Buffer_toString_hex taprootKey)"
    by (simp add: getBtcTaprootPrivateKey_def seed master taprootChild taprootKey
        nonnull_toString_hex_def)
  ultimately show ?thesis
    using seed master btcChild btcKey keyPair btcPub taprootChild taprootKey privKey internalPub
      ordinalsPub
    by blast
qed

theorem private_key_round_trip_witness:
  "walletFromSeedPhrase sample_libs sample_constants ''ab'' 0 Mainnet =
     Inr \<lparr>stxAddress = ''SP020134343001'', btcAddress = Some ''33039340102'',
          ordinalsAddress = Some ''bc1p0201383630'', masterPubKey = ''0102'',
          stxPublicKey = ''013034340102'', btcPublicKey = ''3039340102'',
          ordinalsPublicKey = ''3036380102'', seedPhrase = ''ab''\<rparr> \<and>
   getBtcPrivateKey sample_libs sample_constants ''ab'' 0 Mainnet = Inr ''0201343930'' \<and>
   getBtcTaprootPrivateKey sample_libs sample_constants ''ab'' 0 Mainnet = Inr ''0201383630''"
  using private_key_round_trip [OF sample_wallet_mainnet] sample_wallet_mainnet
  by (simp add: getBtcPrivateKey_def getBtcTaprootPrivateKey_def sample_defs path_defs host_defs)

section \<open>Stacks key chain on the two chains\<close>

text \<open>
  Claim C9. For a fixed mnemonic and account index, \<^verbatim>\<open>getStxAddressKeyChain\<close> on chain ID
  Mainnet and on chain ID Testnet returns the same child key and the same private key
  string; the address is computed from that private key with the Mainnet transaction
  version when the chain ID is Mainnet and with the Testnet one otherwise.
\<close>

theorem stx_key_independent_of_chain:
  assumes "getStxAddressKeyChain L C mnemonic ChainID_Mainnet accountIndex = Inr k1"
    and "getStxAddressKeyChain L C mnemonic ChainID_Testnet accountIndex = Inr k2"
  shows "childKey k1 = childKey k2 \<and> privateKey k1 = privateKey k2 \<and>
    getAddressFromPrivateKey L (privateKey k1) TransactionVersion_Mainnet = Inr (address k1) \<and>
    getAddressFromPrivateKey L (privateKey k2) TransactionVersion_Testnet = Inr (address k2)"
  using assms
  by (auto simp: getStxAddressKeyChain_def deriveStxAddressChain_def getDerivationPath_def
      derivationPaths_def await_eq_Inr split: option.splits)

lemma sample_keychain_mainnet:
  "getStxAddressKeyChain sample_libs sample_constants ''ab'' ChainID_Mainnet (Integral 3) =
     Inr \<lparr>childKey = \<lparr>node_privateKey = Some [2, 1, 52, 52, 51],
                       node_publicKey = [1, 2, 52, 52, 51], node_chainCode = [1]\<rparr>,
          address = ''SP020134343301'', privateKey = ''020134343301''\<rparr>"
  by (simp add: getStxAddressKeyChain_def deriveStxAddressChain_def sample_defs path_defs host_defs)

lemma sample_keychain_testnet:
  "getStxAddressKeyChain sample_libs sample_constants ''ab'' ChainID_Testnet (Integral 3) =
     Inr \<lparr>childKey = \<lparr>node_privateKey = Some [2, 1, 52, 52, 51],
                       node_publicKey = [1, 2, 52, 52, 51], node_chainCode = [1]\<rparr>,
          address = ''ST020134343301'', privateKey = ''020134343301''\<rparr>"
  by (simp add: getStxAddressKeyChain_def deriveStxAddressChain_def sample_defs path_defs host_defs)

theorem stx_key_independent_of_chain_witness:
  "getStxAddressKeyChain sample_libs sample_constants ''ab'' ChainID_Mainnet (Integral 3) =
     Inr \<lparr>childKey = \<lparr>node_privateKey = Some [2, 1, 52, 52, 51],
                       node_publicKey = [1, 2, 52, 52, 51], node_chainCode = [1]\<rparr>,
          address = ''SP020134343301'', privateKey = ''020134343301''\<rparr> \<and>
   getStxAddressKeyChain sample_libs sample_constants ''ab'' ChainID_Testnet (Integral 3) =
     Inr \<lparr>childKey = \<lparr>node_privateKey = Some [2, 1, 52, 52, 51],
                       node_publicKey = [1, 2, 52, 52, 51], node_chainCode = [1]\<rparr>,
          address = ''ST020134343301'', privateKey = ''020134343301''\<rparr> \<and>
   getAddressFromPrivateKey sample_libs ''020134343301'' TransactionVersion_Mainnet =
     Inr ''SP020134343301'' \<and>
   getAddressFromPrivateKey sample_libs ''020134343301'' TransactionVersion_Testnet =
     Inr ''ST020134343301''"
  using stx_key_independent_of_chain [OF sample_keychain_mainnet sample_keychain_testnet]
    sample_keychain_mainnet sample_keychain_testnet
  by simp

section \<open>Address validators\<close>

lemmas version_defs = AddressVersion_MainnetSingleSig_def AddressVersion_MainnetMultiSig_def
  AddressVersion_TestnetSingleSig_def AddressVersion_TestnetMultiSig_def

text \<open>
  Claim C5, as the code has it. \<^verbatim>\<open>validateStxAddress\<close> returns true exactly when the
  string c32-decodes, the decoded hash part is not empty, and the version byte is
  MainnetSingleSig or MainnetMultiSig on Mainnet, TestnetSingleSig or TestnetMultiSig on
  Testnet. It returns false for every other string: one that does not decode, and one
  that decodes to a version byte of the other network.
\<close>

theorem validateStxAddress_accepts:
  "validateStxAddress L stxAddr network =
     Inr (case c32addressDecode L stxAddr of
            Inl e \<Rightarrow> False
          | Inr (version, hash160) \<Rightarrow>
              hash160 \<noteq> [] \<and>
              (if network = Mainnet
               then version = AddressVersion_MainnetSingleSig \<or>
                    version = AddressVersion_MainnetMultiSig
               else version = AddressVersion_TestnetSingleSig \<or>
                    version = AddressVersion_TestnetMultiSig)) \<and>
   (\<forall>e. c32addressDecode L stxAddr = Inl e \<longrightarrow> validateStxAddress L stxAddr network = Inr False) \<and>
   (\<forall>version hash160. c32addressDecode L stxAddr = Inr (version, hash160) \<and>
        (version = AddressVersion_TestnetSingleSig \<or> version = AddressVersion_TestnetMultiSig)
      \<longrightarrow> validateStxAddress L stxAddr Mainnet = Inr False) \<and>
   (\<forall>version hash160. c32addressDecode L stxAddr = Inr (version, hash160) \<and>
        (version = AddressVersion_MainnetSingleSig \<or> version = AddressVersion_MainnetMultiSig)
      \<longrightarrow> validateStxAddress L stxAddr Testnet = Inr False)"
  by (auto simp: validateStxAddress_def version_defs Let_def split: sum.splits)

lemma sample_decode_testnet:
  "c32addressDecode sample_libs ''ST2J6ZY48GV1EZ5V2V5RB9MP66SW86PYKKQYAC0RQ'' =
     Inr (AddressVersion_TestnetSingleSig, ''a46ff88886c2ef9762d970b4d2c63678835bd39d'')"
  by (simp add: sample_libs_def sample_c32addressDecode_def version_defs)

lemma sample_decode_mainnet:
  "c32addressDecode sample_libs ''SP2J6ZY48GV1EZ5V2V5RB9MP66SW86PYKKNRV9EJ7'' =
     Inr (AddressVersion_MainnetSingleSig, ''a46ff88886c2ef9762d970b4d2c63678835bd39d'')"
  by (simp add: sample_libs_def sample_c32addressDecode_def version_defs)

lemma sample_decode_fails:
  "c32addressDecode sample_libs ''not an address'' = Inl (Error ''Invalid c32 address'')"
  by (simp add: sample_libs_def sample_c32addressDecode_def)

theorem validateStxAddress_accepts_witness:
  "c32addressDecode sample_libs ''ST2J6ZY48GV1EZ5V2V5RB9MP66SW86PYKKQYAC0RQ'' =
     Inr (AddressVersion_TestnetSingleSig, ''a46ff88886c2ef9762d970b4d2c63678835bd39d'') \<and>
   validateStxAddress sample_libs ''ST2J6ZY48GV1EZ5V2V5RB9MP66SW86PYKKQYAC0RQ'' Mainnet = Inr False \<and>
   validateStxAddress sample_libs ''ST2J6ZY48GV1EZ5V2V5RB9MP66SW86PYKKQYAC0RQ'' Testnet = Inr True \<and>
   c32addressDecode sample_libs ''SP2J6ZY48GV1EZ5V2V5RB9MP66SW86PYKKNRV9EJ7'' =
     Inr (AddressVersion_MainnetSingleSig, ''a46ff88886c2ef9762d970b4d2c63678835bd39d'') \<and>
   validateStxAddress sample_libs ''SP2J6ZY48GV1EZ5V2V5RB9MP66SW86PYKKNRV9EJ7'' Testnet = Inr False \<and>
   validateStxAddress sample_libs ''SP2J6ZY48GV1EZ5V2V5RB9MP66SW86PYKKNRV9EJ7'' Mainnet = Inr True \<and>
   c32addressDecode sample_libs ''not an address'' = Inl (Error ''Invalid c32 address'') \<and>
   validateStxAddress sample_libs ''not an address'' Mainnet = Inr False"
proof -
  note t = validateStxAddress_accepts [where L = sample_libs, THEN conjunct1]
  have "validateStxAddress sample_libs ''ST2J6ZY48GV1EZ5V2V5RB9MP66SW86PYKKQYAC0RQ'' Mainnet = Inr False"
    using validateStxAddress_accepts [where L = sample_libs and network = Mainnet
        and stxAddr = "''ST2J6ZY48GV1EZ5V2V5RB9MP66SW86PYKKQYAC0RQ''"] sample_decode_testnet
    by blast
  moreover have
    "validateStxAddress sample_libs ''SP2J6ZY48GV1EZ5V2V5RB9MP66SW86PYKKNRV9EJ7'' Testnet = Inr False"
    using validateStxAddress_accepts [where L = sample_libs and network = Testnet
        and stxAddr = "''SP2J6ZY48GV1EZ5V2V5RB9MP66SW86PYKKNRV9EJ7''"] sample_decode_mainnet
    by blast
  moreover have "validateStxAddress sample_libs ''not an address'' Mainnet = Inr False"
    using validateStxAddress_accepts [where L = sample_libs and network = Mainnet
        and stxAddr = "''not an address''"] sample_decode_fails
    by blast
  moreover have
    "validateStxAddress sample_libs ''ST2J6ZY48GV1EZ5V2V5RB9MP66SW86PYKKQYAC0RQ'' Testnet = Inr True"
    by (simp add: t sample_decode_testnet)
  moreover have
    "validateStxAddress sample_libs ''SP2J6ZY48GV1EZ5V2V5RB9MP66SW86PYKKNRV9EJ7'' Mainnet = Inr True"
    by (simp add: t sample_decode_mainnet)
  ultimately show ?thesis
    using sample_decode_testnet sample_decode_mainnet sample_decode_fails by simp
qed

text \<open>
  The claim as first stated, true for every decodable string with a version byte of the
  network, fails on a string that decodes to the Mainnet single-signature version and an
  empty hash part, such as the c32check encoding of version 22 with no payload.
\<close>

theorem validateStxAddress_empty_hash_counterexample:
  "c32addressDecode sample_libs ''SP37JJX3D'' = Inr (AddressVersion_MainnetSingleSig, []) \<and>
   validateStxAddress sample_libs ''SP37JJX3D'' Mainnet = Inr False"
  by (simp add: validateStxAddress_def sample_libs_def sample_c32addressDecode_def version_defs)

text \<open>
  Claim C6. The validators never raise: for every string and network
  \<^verbatim>\<open>validateStxAddress\<close> and \<^verbatim>\<open>validateBtcAddress\<close> return a boolean, and when the
  decoding or validation library throws, the validator returns false.
\<close>

theorem validators_never_raise:
  "(\<exists>b. validateStxAddress L stxAddr network = Inr b) \<and>
   (\<exists>b. validateBtcAddress L btcAddr network = Inr b) \<and>
   (\<forall>e. c32addressDecode L stxAddr = Inl e \<longrightarrow> validateStxAddress L stxAddr network = Inr False) \<and>
   (\<forall>e. validate L btcAddr (if network = Mainnet then btcAddressNetwork_mainnet
                               else btcAddressNetwork_testnet) = Inl e \<longrightarrow>
        validateBtcAddress L btcAddr network = Inr False)"
  by (auto simp: validateStxAddress_def validateBtcAddress_def try_catch_def await_def Let_def
      split: sum.splits)

theorem validators_never_raise_witness:
  "c32addressDecode sample_libs ''SP2J6ZY48'' = Inl (Error ''Invalid c32 address'') \<and>
   validateStxAddress sample_libs ''SP2J6ZY48'' Testnet = Inr False \<and>
   validate sample_libs [] btcAddressNetwork_testnet = Inl (Error ''Invalid address'') \<and>
   validateBtcAddress sample_libs [] Testnet = Inr False"
  using validators_never_raise [where L = sample_libs and stxAddr = "''SP2J6ZY48''"
      and btcAddr = "[]" and network = Testnet]
  by (simp add: sample_libs_def sample_c32addressDecode_def)

text \<open>
  Claim C10. \<^verbatim>\<open>validateStxAddress\<close> returns false for every string whose decoding has
  the version 0 or an empty hash part, on either network and whatever the version byte.
\<close>

theorem validateStxAddress_falsy_parts:
  assumes "c32addressDecode L stxAddr = Inr (version, hash160)"
    and "version = 0 \<or> hash160 = []"
  shows "validateStxAddress L stxAddr network = Inr False"
  using assms by (auto simp: validateStxAddress_def)

lemma sample_decode_version_zero:
  "c32addressDecode sample_libs ''S02J6ZY48GV1EZ5V2V5RB9MP66SW86PYKKPVKG2CE'' =
     Inr (0, ''a46ff88886c2ef9762d970b4d2c63678835bd39d'')"
  by (simp add: sample_libs_def sample_c32addressDecode_def)

theorem validateStxAddress_falsy_parts_witness:
  "c32addressDecode sample_libs ''S02J6ZY48GV1EZ5V2V5RB9MP66SW86PYKKPVKG2CE'' =
     Inr (0, ''a46ff88886c2ef9762d970b4d2c63678835bd39d'') \<and>
   validateStxAddress sample_libs ''S02J6ZY48GV1EZ5V2V5RB9MP66SW86PYKKPVKG2CE'' Mainnet = Inr False \<and>
   validateStxAddress sample_libs ''S02J6ZY48GV1EZ5V2V5RB9MP66SW86PYKKPVKG2CE'' Testnet = Inr False"
  using validateStxAddress_falsy_parts [OF sample_decode_version_zero, of Mainnet]
    validateStxAddress_falsy_parts [OF sample_decode_version_zero, of Testnet]
    sample_decode_version_zero
  by simp

section \<open>A child node without private key\<close>

text \<open>
  Claim C7. When the derived child node has no private key, every chain-specific
  derivation ends in an error and returns neither a key chain, nor a wallet record, nor a
  key string: \<^verbatim>\<open>deriveStxAddressChain\<close> throws its own error, which
  \<^verbatim>\<open>walletFromSeedPhrase\<close> passes on; \<^verbatim>\<open>getBtcPrivateKey\<close> and
  \<^verbatim>\<open>getBtcTaprootPrivateKey\<close> fail, and so does \<^verbatim>\<open>walletFromSeedPhrase\<close> when its
  wrapped-segwit child or its taproot child lacks the key.
\<close>

theorem missing_private_key_is_an_error:
  "(derivePath L root (getDerivationPath C chain index) = Inr stxChild \<and>
      node_privateKey stxChild = None
      \<longrightarrow> deriveStxAddressChain L C chain (Some index) root =
            Inl (Error ''Unable to derive private key from `rootNode`, bip32 master keychain'')) \<and>
   (bip39_mnemonicToSeed L mnemonic = Inr seed \<and> bip32_fromSeed L seed = Inr master \<longrightarrow>
      (derivePath L master (getDerivationPath C
            (if network = Mainnet then ChainID_Mainnet else ChainID_Testnet) index) = Inr stxChild \<and>
         node_privateKey stxChild = None
         \<longrightarrow> walletFromSeedPhrase L C mnemonic index network =
               Inl (Error ''Unable to derive private key from `rootNode`, bip32 master keychain'')) \<and>
      (derivePath L master (getBitcoinDerivationPath C None index network) = Inr btcChild \<and>
         node_privateKey btcChild = None
         \<longrightarrow> (\<exists>e. getBtcPrivateKey L C mnemonic index network = Inl e) \<and>
             (\<exists>e. walletFromSeedPhrase L C mnemonic index network = Inl e)) \<and>
      (derivePath L master (getTaprootDerivationPath C None index network) = Inr taprootChild \<and>
         node_privateKey taprootChild = None
         \<longrightarrow> (\<exists>e. getBtcTaprootPrivateKey L C mnemonic index network = Inl e) \<and>
             (\<exists>e. walletFromSeedPhrase L C mnemonic index network = Inl e)))"
  by (auto simp: deriveStxAddressChain_def getBtcPrivateKey_def getBtcTaprootPrivateKey_def
      walletFromSeedPhrase_def nonnull_toString_hex_def ECPair_fromPrivateKey_def Buffer_from_def
      await_def Let_def split: sum.splits)

lemma sample_neutered_root:
  "bip39_mnemonicToSeed sample_libs [] = Inr [0, 1] \<and>
   bip32_fromSeed sample_libs [0, 1] =
     Inr \<lparr>node_privateKey = None, node_publicKey = [1, 0], node_chainCode = [1]\<rparr>"
  by (simp add: sample_defs)

lemma sample_neutered_children:
  "derivePath sample_libs \<lparr>node_privateKey = None, node_publicKey = [1, 0], node_chainCode = [1]\<rparr>
     (getDerivationPath sample_constants ChainID_Mainnet 0) =
     Inr \<lparr>node_privateKey = None, node_publicKey = [1, 0, 52, 52, 48], node_chainCode = [1]\<rparr>"
  "derivePath sample_libs \<lparr>node_privateKey = None, node_publicKey = [1, 0], node_chainCode = [1]\<rparr>
     (getBitcoinDerivationPath sample_constants None 0 Mainnet) =
     Inr \<lparr>node_privateKey = None, node_publicKey = [1, 0, 52, 57, 48], node_chainCode = [1]\<rparr>"
  "derivePath sample_libs \<lparr>node_privateKey = None, node_publicKey = [1, 0], node_chainCode = [1]\<rparr>
     (getTaprootDerivationPath sample_constants None 0 Mainnet) =
     Inr \<lparr>node_privateKey = None, node_publicKey = [1, 0, 56, 54, 48], node_chainCode = [1]\<rparr>"
  by (simp_all add: sample_defs path_defs Let_def)

theorem missing_private_key_is_an_error_witness:
  "bip39_mnemonicToSeed sample_libs [] = Inr [0, 1] \<and>
   bip32_fromSeed sample_libs [0, 1] =
     Inr \<lparr>node_privateKey = None, node_publicKey = [1, 0], node_chainCode = [1]\<rparr> \<and>
   derivePath sample_libs \<lparr>node_privateKey = None, node_publicKey = [1, 0], node_chainCode = [1]\<rparr>
     (getDerivationPath sample_constants ChainID_Mainnet 0) =
     Inr \<lparr>node_privateKey = None, node_publicKey = [1, 0, 52, 52, 48], node_chainCode = [1]\<rparr> \<and>
   derivePath sample_libs \<lparr>node_privateKey = None, node_publicKey = [1, 0], node_chainCode = [1]\<rparr>
     (getBitcoinDerivationPath sample_constants None 0 Mainnet) =
     Inr \<lparr>node_privateKey = None, node_publicKey = [1, 0, 52, 57, 48], node_chainCode = [1]\<rparr> \<and>
   derivePath sample_libs \<lparr>node_privateKey = None, node_publicKey = [1, 0], node_chainCode = [1]\<rparr>
     (getTaprootDerivationPath sample_constants None 0 Mainnet) =
     Inr \<lparr>node_privateKey = None, node_publicKey = [1, 0, 56, 54, 48], node_chainCode = [1]\<rparr> \<and>
   deriveStxAddressChain sample_libs sample_constants ChainID_Mainnet (Some 0)
     \<lparr>node_privateKey = None, node_publicKey = [1, 0], node_chainCode = [1]\<rparr> =
     Inl (Error ''Unable to derive private key from `rootNode`, bip32 master keychain'') \<and>
   walletFromSeedPhrase sample_libs sample_constants [] 0 Mainnet =
     Inl (Error ''Unable to derive private key from `rootNode`, bip32 master keychain'') \<and>
   (\<exists>e. getBtcPrivateKey sample_libs sample_constants [] 0 Mainnet = Inl e) \<and>
   (\<exists>e. getBtcTaprootPrivateKey sample_libs sample_constants [] 0 Mainnet = Inl e)"
  using missing_private_key_is_an_error [where L = sample_libs and C = sample_constants
      and mnemonic = "[]" and index = 0 and network = Mainnet and chain = ChainID_Mainnet
      and seed = "[0, 1]"
      and root = "\<lparr>node_privateKey = None, node_publicKey = [1, 0], node_chainCode = [1]\<rparr>"
      and master = "\<lparr>node_privateKey = None, node_publicKey = [1, 0], node_chainCode = [1]\<rparr>"
      and stxChild =
        "\<lparr>node_privateKey = None, node_publicKey = [1, 0, 52, 52, 48], node_chainCode = [1]\<rparr>"
      and btcChild =
        "\<lparr>node_privateKey = None, node_publicKey = [1, 0, 52, 57, 48], node_chainCode = [1]\<rparr>"
      and taprootChild =
        "\<lparr>node_privateKey = None, node_publicKey = [1, 0, 56, 54, 48], node_chainCode = [1]\<rparr>"]
    sample_neutered_root sample_neutered_children
  by simp

section \<open>Seed encryption through callbacks\<close>

text \<open>
  Claim C8. Let the hash generators of the two calls produce the same hash for the
  password, and let the decryption handler, given the hex string of the buffer that the
  encryption handler returned for the seed under that hash, return the seed. Then
  \<^verbatim>\<open>decryptMnemonicWithCallback\<close> applied to the result of
  \<^verbatim>\<open>encryptMnemonicWithCallback\<close> returns the original seed string.
\<close>

theorem encrypt_decrypt_inverse:
  assumes "encryptMnemonicWithCallback password seed hashE encryptionHandler = Inr encrypted"
    and "hashE password = Inr generatedE"
    and "hashD password = Inr generatedD"
    and "hash generatedD = hash generatedE"
    and "\<forall>buf. encryptionHandler seed (hash generatedE) = Inr buf \<longrightarrow>
           decryptionHandler (OfString (Buffer_toString_hex buf)) (hash generatedE) = Inr seed"
  shows "decryptMnemonicWithCallback password encrypted hashD decryptionHandler = Inr seed"
  using assms
  by (auto simp: encryptMnemonicWithCallback_def decryptMnemonicWithCallback_def await_eq_Inr)

lemma sample_encrypt:
  "encryptMnemonicWithCallback ''pw'' ''seed'' sample_passwordHashGenerator sample_encryptionHandler
     = Inr ''777073656564''"
  by (simp add: encryptMnemonicWithCallback_def sample_passwordHashGenerator_def
      sample_encryptionHandler_def byte_of_char_def Buffer_toString_hex_def hex_digit_def)

lemma sample_hash:
  "sample_passwordHashGenerator ''pw'' = Inr \<lparr>salt = ''salt'', hash = ''wp''\<rparr>"
  by (simp add: sample_passwordHashGenerator_def)

lemma sample_handlers_inverse:
  "\<forall>buf. sample_encryptionHandler ''seed'' (hash \<lparr>salt = ''salt'', hash = ''wp''\<rparr>) = Inr buf \<longrightarrow>
     sample_decryptionHandler (OfString (Buffer_toString_hex buf))
       (hash \<lparr>salt = ''salt'', hash = ''wp''\<rparr>) = Inr ''seed''"
  by (simp add: sample_encryptionHandler_def sample_decryptionHandler_def byte_of_char_def
      Buffer_toString_hex_def hex_digit_def hex_value_def char_of_byte_def char_of_def bit_0)

theorem encrypt_decrypt_inverse_witness:
  "encryptMnemonicWithCallback ''pw'' ''seed'' sample_passwordHashGenerator sample_encryptionHandler
     = Inr ''777073656564'' \<and>
   decryptMnemonicWithCallback ''pw'' ''777073656564'' sample_passwordHashGenerator
     sample_decryptionHandler = Inr ''seed''"
proof -
  have "decryptMnemonicWithCallback ''pw'' ''777073656564'' sample_passwordHashGenerator
      sample_decryptionHandler = Inr ''seed''"
    by (rule encrypt_decrypt_inverse
        [where hashE = sample_passwordHashGenerator and encryptionHandler = sample_encryptionHandler
          and hashD = sample_passwordHashGenerator and decryptionHandler = sample_decryptionHandler
          and password = "''pw''" and seed = "''seed''" and encrypted = "''777073656564''"
          and generatedE = "\<lparr>salt = ''salt'', hash = ''wp''\<rparr>"
          and generatedD = "\<lparr>salt = ''salt'', hash = ''wp''\<rparr>",
          OF sample_encrypt sample_hash sample_hash refl sample_handlers_inverse])
  with sample_encrypt show ?thesis by simp
qed

end
